theory Spec2Isabelle
  imports Complex_Main "HOL-Library.Char_ord" "HOL-Library.List_Lexorder"
begin

section \<open>Faults\<close>

text \<open>
  The Python exceptions the mosaicking code can raise, as values.  \<open>ReadError\<close> stands for
  a GDAL read outside the dataset, \<open>WriteError\<close> for a rasterio write outside the raster
  and \<open>RasterioIOError\<close> for opening a raster file that is not there.
\<close>

datatype error =
    FileNotFoundError
  | ValueError
  | ZeroDivisionError
  | IndexError
  | UnboundLocalError
  | AttributeError
  | ReadError
  | WriteError
  | RasterioIOError

section \<open>Tiling engine: \<open>slice_gen\<close>\<close>

text \<open>
  Python's \<open>range(start, stop, step)\<close> for a non-zero step, as the list of its values.
  (\<open>slice_gen\<close> divides by the step before it builds a range, so a zero step never
  reaches \<open>range\<close>; the model returns the empty list there.)
\<close>

function py_range :: "int \<Rightarrow> int \<Rightarrow> int \<Rightarrow> int list" where
  "py_range i stop step =
     (if 0 < step \<and> i < stop then i # py_range (i + step) stop step
      else if step < 0 \<and> stop < i then i # py_range (i + step) stop step
      else [])"
  by pat_completeness auto
termination
  by (relation "measure (\<lambda>(i, stop, step). nat (if 0 < step then stop - i else i - stop))") auto

declare py_range.simps [simp del]

text \<open>
  A \<open>slice(start, stop)\<close> object is the pair of its two fields; the generator is the list
  of the slices it yields, in order.  \<open>//\<close> on Python integers is floor division, as
  \<open>div\<close> on \<open>int\<close>; a zero \<open>batch_size\<close> raises at the first division.
\<close>

type_synonym slice = "int \<times> int"

definition slice_gen :: "int \<Rightarrow> int \<Rightarrow> bool \<Rightarrow> error + slice list" where
  "slice_gen total_size batch_size combine_rem =
     (if batch_size = 0 then Inl ZeroDivisionError
      else
        let num_complete_blks = total_size div batch_size;
            num_total_complete = num_complete_blks * batch_size;
            num_rem = total_size - num_total_complete
        in
          if combine_rem \<and> num_rem > 0 then
            Inr (map (\<lambda>start_idx. (start_idx, start_idx + batch_size))
                     (py_range 0 (num_total_complete - batch_size) batch_size)
                 @ [(num_total_complete - batch_size, total_size)])
          else
            Inr (map (\<lambda>start_idx. (start_idx, start_idx + batch_size))
                     (py_range 0 num_total_complete batch_size)))"

text \<open>
  \<open>tiles a xs b\<close>: the slices \<open>xs\<close> are non-empty, in ascending order, and each starts
  where the one before stopped, from \<open>a\<close> to \<open>b\<close>; so they partition \<open>[a, b)\<close>.
\<close>

fun tiles :: "int \<Rightarrow> slice list \<Rightarrow> int \<Rightarrow> bool" where
  "tiles a [] b = (a = b)"
| "tiles a ((s, e) # xs) b = (s = a \<and> s < e \<and> tiles e xs b)"

text \<open>The indices a list of slices covers.\<close>

definition covered :: "slice list \<Rightarrow> int set" where
  "covered xs = (\<Union>(s, e) \<in> set xs. {s..<e})"


section \<open>Samples and their sanitization\<close>

text \<open>
  A floating-point sample is a finite number, one of the two infinities, or not-a-number.
  The writer only tests and replaces samples (it does no arithmetic on them), so the finite
  values are taken as reals; every finite \<open>float32\<close> is one.
\<close>

datatype sample = Num real | PosInf | NegInf | NaN

text \<open>\<open>np.isinf\<close>: true of both infinities.\<close>

fun np_isinf :: "sample \<Rightarrow> bool" where
  "np_isinf PosInf = True"
| "np_isinf NegInf = True"
| "np_isinf (Num x) = False"
| "np_isinf NaN = False"

text \<open>\<open>x > y\<close> on floating-point values: false whenever either side is not-a-number.\<close>

fun np_greater :: "sample \<Rightarrow> sample \<Rightarrow> bool" where
  "np_greater NaN y = False"
| "np_greater x NaN = False"
| "np_greater NegInf y = False"
| "np_greater PosInf y = (y \<noteq> PosInf)"
| "np_greater (Num a) NegInf = True"
| "np_greater (Num a) PosInf = False"
| "np_greater (Num a) (Num b) = (b < a)"

text \<open>\<open>x == y\<close> on floating-point values: not-a-number equals nothing.\<close>

fun np_equal :: "sample \<Rightarrow> sample \<Rightarrow> bool" where
  "np_equal NaN y = False"
| "np_equal x NaN = False"
| "np_equal x y = (x = y)"

text \<open>A block is a list of rows. \<open>blk[mask] = v\<close> assigns \<open>v\<close> where the mask holds.\<close>

type_synonym block = "sample list list"

definition mask_assign :: "(sample \<Rightarrow> bool) \<Rightarrow> sample \<Rightarrow> block \<Rightarrow> block" where
  "mask_assign msk v blk = map (map (\<lambda>x. if msk x then v else x)) blk"

text \<open>
  The three assignments of \<open>read_write_rtc\<close> on a block just read, in the source's order:
  \<^verbatim>\<open>ds_blk[np.isinf(ds_blk)] = designated_value\<close>,
  \<^verbatim>\<open>ds_blk[ds_blk > designated_value] = designated_value\<close>,
  \<^verbatim>\<open>ds_blk[ds_blk == 0] = np.nan\<close>.
\<close>

definition sanitize_blk :: "sample \<Rightarrow> block \<Rightarrow> block" where
  "sanitize_blk designated_value ds_blk =
     (let blk1 = mask_assign np_isinf designated_value ds_blk;
          blk2 = mask_assign (\<lambda>x. np_greater x designated_value) designated_value blk1;
          blk3 = mask_assign (\<lambda>x. np_equal x (Num 0)) NaN blk2
      in blk3)"

section \<open>Datasets and rasters\<close>

type_synonym path = string

text \<open>
  A GDAL dataset opened on a 2-D array of a product: its size and its cells by (row, column).
  \<open>ReadAsArray(xoff, yoff, xsize, ysize)\<close> gives the window as a list of rows, and nothing
  when the window does not lie inside the dataset.
\<close>

record dataset =
  RasterXSize :: int
  RasterYSize :: int
  ds_cell :: "int \<Rightarrow> int \<Rightarrow> sample"

definition ReadAsArray :: "dataset \<Rightarrow> int \<Rightarrow> int \<Rightarrow> int \<Rightarrow> int \<Rightarrow> block option" where
  "ReadAsArray ds xoff yoff xsize ysize =
     (if xoff < 0 \<or> yoff < 0 \<or> xsize \<le> 0 \<or> ysize \<le> 0
         \<or> RasterXSize ds < xoff + xsize \<or> RasterYSize ds < yoff + ysize
      then None
      else Some (map (\<lambda>r. map (\<lambda>c. ds_cell ds r c) [xoff..xoff + xsize - 1])
                     [yoff..yoff + ysize - 1]))"

datatype crs = EPSG int

text \<open>
  The affine transform with matrix rows \<open>(a, b, c)\<close> and \<open>(d, e, f)\<close>, its two constructors
  used by the reader, and the product of two transforms.
\<close>

datatype affine = Affine real real real real real real

definition Affine_translation :: "real \<Rightarrow> real \<Rightarrow> affine" where
  "Affine_translation xoff yoff = Affine 1 0 xoff 0 1 yoff"

definition Affine_scale :: "real \<Rightarrow> real \<Rightarrow> affine" where
  "Affine_scale sx sy = Affine sx 0 0 0 sy 0"

fun affine_mul :: "affine \<Rightarrow> affine \<Rightarrow> affine" where
  "affine_mul (Affine a1 b1 c1 d1 e1 f1) (Affine a2 b2 c2 d2 e2 f2) =
     Affine (a1 * a2 + b1 * d2) (a1 * b2 + b1 * e2) (a1 * c2 + b1 * f2 + c1)
            (d1 * a2 + e1 * d2) (d1 * b2 + e1 * e2) (d1 * c2 + e1 * f2 + f1)"

datatype tagval = TStr string | TInt int

type_synonym tags = "(string \<times> tagval) list"

text \<open>
  A single-band GeoTIFF: size, coordinate system, transform, file-level tags and the cells
  written so far, by (row, column).
\<close>

record raster =
  r_height :: int
  r_width :: int
  r_crs :: crs
  r_transform :: affine
  r_tags :: tags
  r_band :: "int \<times> int \<Rightarrow> sample option"

text \<open>
  \<open>dst.write(blk, 1, window=Window(col_off, row_off, w, h))\<close>: the block replaces the
  cells of the window; a window that leaves the raster is a fault.
\<close>

definition write_window ::
  "raster \<Rightarrow> block \<Rightarrow> int \<Rightarrow> int \<Rightarrow> int \<Rightarrow> int \<Rightarrow> error + raster" where
  "write_window dst blk col_off row_off w h =
     (if col_off < 0 \<or> row_off < 0 \<or> r_width dst < col_off + w \<or> r_height dst < row_off + h
      then Inl WriteError
      else Inr (dst\<lparr>r_band := (\<lambda>(r, c).
                  if row_off \<le> r \<and> r < row_off + h \<and> col_off \<le> c \<and> c < col_off + w
                  then Some (blk ! nat (r - row_off) ! nat (c - col_off))
                  else r_band dst (r, c))\<rparr>))"

section \<open>The state of a run\<close>

text \<open>
  The geogrid accumulator (class \<open>DSWXGeogrid\<close>).
  Modelled from the spec: the class \<open>DSWXGeogrid\<close> and its method \<open>update_geogrid\<close>
  are imported from \<open>dswx_sar.dswx_geogrid\<close>, which is not among the sources. The spec
  describes a value that starts empty and is widened by each registration of a raster's
  footprint; the model keeps the registrations themselves, in order: the path given to
  \<open>update_geogrid\<close> and the raster file found there at that moment.
\<close>

type_synonym geogrid = "(path \<times> raster) list"

text \<open>A call of the combination collaborator \<open>mosaic_single_output_file\<close>.\<close>

record mosaic_call =
  mc_inputs :: "path list"
  mc_nlooks :: "path list"
  mc_output :: path
  mc_mode :: string
  mc_scratch :: path
  mc_geogrid :: geogrid

text \<open>
  What a run writes: the intermediate GeoTIFFs by path, and the mosaics asked of the
  combination collaborator, in order.
\<close>

record state =
  rasters :: "path \<Rightarrow> raster option"
  mosaics :: "mosaic_call list"

definition put_raster :: "path \<Rightarrow> raster \<Rightarrow> state \<Rightarrow> state" where
  "put_raster p r st = st\<lparr>rasters := (rasters st)(p \<mapsto> r)\<rparr>"

text \<open>\<open>os.replace(src, dst)\<close> on raster files.\<close>

definition os_replace :: "path \<Rightarrow> path \<Rightarrow> state \<Rightarrow> state" where
  "os_replace src dst st =
     (if src = dst then st
      else st\<lparr>rasters := (rasters st)(dst := rasters st src, src := None)\<rparr>)"

definition update_geogrid :: "geogrid \<Rightarrow> path \<Rightarrow> state \<Rightarrow> error + geogrid" where
  "update_geogrid geogrid_in p st =
     (case rasters st p of
        None \<Rightarrow> Inl RasterioIOError
      | Some r \<Rightarrow> Inr (geogrid_in @ [(p, r)]))"

text \<open>
  The collaborators \<open>majority_element\<close> (module \<open>mosaic_rtc_burst\<close>) and
  \<open>change_epsg_tif\<close> (module \<open>dswx_sar_util\<close>) are not among the sources. The majority
  vote over the EPSG codes and the reprojection kernel are taken as parameters: the kernel
  maps the raster read from \<open>input_tif\<close>, the target EPSG code and the no-data value to the
  raster it writes to \<open>output_tif\<close>, or fails.
\<close>

record collaborators =
  majority_element :: "int list \<Rightarrow> int"
  reproject :: "raster \<Rightarrow> int \<Rightarrow> int \<Rightarrow> error + raster"

text \<open>
  Modelled from the spec: \<open>change_epsg_tif\<close> is the reprojection function (input path, output
  path, target CRS code, output no-data value); it reads the input raster file and writes
  what the kernel gives to the output path.
\<close>

definition change_epsg_tif ::
  "collaborators \<Rightarrow> path \<Rightarrow> path \<Rightarrow> int \<Rightarrow> int \<Rightarrow> state \<Rightarrow> (error + unit) \<times> state" where
  "change_epsg_tif env input_tif output_tif epsg_output output_nodata st =
     (case rasters st input_tif of
        None \<Rightarrow> (Inl RasterioIOError, st)
      | Some r \<Rightarrow>
          (case reproject env r epsg_output output_nodata of
             Inl e \<Rightarrow> (Inl e, st)
           | Inr r' \<Rightarrow> (Inr (), put_raster output_tif r' st)))"

text \<open>
  Modelled from the spec: \<open>mosaic_single_output_file\<close> (module \<open>mosaic_rtc_burst\<close>, not
  among the sources) is the combination function (list of raster paths, observation-count
  rasters, output path, mode, scratch directory, target geogrid); the model records the
  request.
\<close>

definition mosaic_single_output_file ::
  "path list \<Rightarrow> path list \<Rightarrow> path \<Rightarrow> string \<Rightarrow> path \<Rightarrow> geogrid \<Rightarrow> state \<Rightarrow> state" where
  "mosaic_single_output_file list_rtc nlooks_list output_file mosaic_mode scratch_dir geogrid_in st =
     st\<lparr>mosaics := mosaics st @
        [\<lparr>mc_inputs = list_rtc, mc_nlooks = nlooks_list, mc_output = output_file,
          mc_mode = mosaic_mode, mc_scratch = scratch_dir, mc_geogrid = geogrid_in\<rparr>]\<rparr>"


section \<open>Hierarchical product reader\<close>

text \<open>
  An input product (a GCOV HDF5 archive): the datasets the reader resolves. The 2-D arrays
  of the grid group (the channels and the layover/shadow mask) are kept by their path inside
  the archive. The input files of a run are a map from path to product; they are only read.
\<close>

record product =
  listOfPolarizations :: "string list"
  projection :: int
  xCoordinates :: "real list"
  yCoordinates :: "real list"
  xCoordinateSpacing :: real
  yCoordinateSpacing :: real
  orbitPassDirection :: string
  lookDirection :: string
  productVersion :: string
  zeroDopplerStartTime :: string
  zeroDopplerEndTime :: string
  frameNumber :: int
  trackNumber :: int
  absoluteOrbitNumber :: int
  l1SlcGranules :: "string list"
  datasets :: "string \<Rightarrow> dataset option"

type_synonym h5fs = "path \<Rightarrow> product option"

text \<open>The reader object: the two block sizes given to its constructor.\<close>

record reader =
  self_row_blk_size :: int
  self_col_blk_size :: int

subsection \<open>Paths\<close>

text \<open>\<open>s.split(sep)\<close> for a one-character separator.\<close>

fun split_on :: "char \<Rightarrow> string \<Rightarrow> string list" where
  "split_on sep [] = [[]]"
| "split_on sep (x # xs) =
     (if x = sep then [] # split_on sep xs
      else (case split_on sep xs of
              [] \<Rightarrow> [[x]]
            | w # ws \<Rightarrow> (x # w) # ws))"

text \<open>
  \<open>Path(p).name\<close>: the last component of the path, empty and \<open>.\<close> components dropped.
\<close>

definition path_name :: "path \<Rightarrow> string" where
  "path_name p =
     (case filter (\<lambda>w. w \<noteq> [] \<and> w \<noteq> ''.'') (split_on CHR ''/'' p) of
        [] \<Rightarrow> []
      | w # ws \<Rightarrow> last (w # ws))"

text \<open>\<open>s.rfind(c)\<close>: the last index of \<open>c\<close> in \<open>s\<close>, if any.\<close>

definition rfind :: "char \<Rightarrow> string \<Rightarrow> nat option" where
  "rfind c s =
     (case filter (\<lambda>i. s ! i = c) (rev [0..<length s]) of
        [] \<Rightarrow> None
      | i # _ \<Rightarrow> Some i)"

text \<open>
  \<open>Path(p).stem\<close>: the name without its last suffix; a name that starts or ends with its
  only dot keeps it.
\<close>

definition path_stem :: "path \<Rightarrow> string" where
  "path_stem p =
     (let name = path_name p
      in case rfind CHR ''.'' name of
           None \<Rightarrow> name
         | Some i \<Rightarrow> if 0 < i \<and> Suc i < length name then take i name else name)"

text \<open>\<open>Path(input_rtc).stem.split('-')[0]\<close>\<close>

definition file_name_of :: "path \<Rightarrow> string" where
  "file_name_of input_rtc =
     (case split_on CHR ''-'' (path_stem input_rtc) of
        [] \<Rightarrow> []
      | w # ws \<Rightarrow> w)"

definition extract_file_name :: "h5fs \<Rightarrow> path \<Rightarrow> error + string" where
  "extract_file_name fs input_rtc =
     (if fs input_rtc = None then Inl FileNotFoundError
      else Inr (file_name_of input_rtc))"

text \<open>\<open>f'{scratch_dir}/{prefix}_{data_name}.tif'\<close> and its temporary sibling.\<close>

definition gtiff_path :: "path \<Rightarrow> string \<Rightarrow> string \<Rightarrow> path" where
  "gtiff_path scratch_dir prefix data_name =
     scratch_dir @ ''/'' @ prefix @ ''_'' @ data_name @ ''.tif''"

definition temp_path :: "path \<Rightarrow> string \<Rightarrow> string \<Rightarrow> path" where
  "temp_path scratch_dir prefix data_name =
     scratch_dir @ ''/'' @ prefix @ ''_temp_'' @ data_name @ ''.tif''"

text \<open>\<open>Path(dataset_path).name[:2]\<close>\<close>

definition data_name_of :: "string \<Rightarrow> string" where
  "data_name_of dataset_path = take 2 (path_name dataset_path)"

subsection \<open>Polarizations\<close>

text \<open>
  \<open>np.all(a == b)\<close> on two 1-D arrays. Arrays of equal length are compared element by
  element; an array of length one is broadcast against the other; any other pair of shapes
  cannot be broadcast, which is a \<open>ValueError\<close>. (An older numpy gives \<open>False\<close> with a
  warning there, and the caller then raises its own \<open>ValueError\<close>.)
\<close>

definition np_all_equal :: "string list \<Rightarrow> string list \<Rightarrow> error + bool" where
  "np_all_equal a b =
     (if length a = length b then Inr (list_all2 (=) a b)
      else if length a = 1 then Inr (list_all (\<lambda>y. a ! 0 = y) b)
      else if length b = 1 then Inr (list_all (\<lambda>x. x = b ! 0) a)
      else Inl ValueError)"

text \<open>
  The loop of \<open>extract_nisar_polarization\<close>, with the variable \<open>polarizations\<close> as
  accumulator. \<open>np.sort\<close> on byte strings is \<open>sort\<close> in the lexicographic order.
\<close>

fun polarization_loop :: "h5fs \<Rightarrow> string list \<Rightarrow> path list \<Rightarrow> error + string list" where
  "polarization_loop fs polarizations [] = Inr polarizations"
| "polarization_loop fs polarizations (input_rtc # rest) =
     (case fs input_rtc of
        None \<Rightarrow> Inl FileNotFoundError
      | Some src_h5 \<Rightarrow>
          (let pols = sort (listOfPolarizations src_h5)
           in if length polarizations = 0 then polarization_loop fs pols rest
              else (case np_all_equal polarizations pols of
                      Inl e \<Rightarrow> Inl e
                    | Inr same \<Rightarrow>
                        if \<not> same then Inl ValueError
                        else polarization_loop fs polarizations rest)))"

definition extract_nisar_polarization :: "h5fs \<Rightarrow> path list \<Rightarrow> error + string list" where
  "extract_nisar_polarization fs input_list = polarization_loop fs [] input_list"

definition generate_nisar_dataset_name :: "string list \<Rightarrow> string list" where
  "generate_nisar_dataset_name data_name =
     map (\<lambda>dname. ''/science/LSAR/GCOV/grids/frequencyA/'' @ dname @ dname) data_name"

definition generate_nisar_layover_name :: "string \<Rightarrow> string" where
  "generate_nisar_layover_name layover_name =
     ''/science/LSAR/GCOV/grids/frequencyA/'' @ layover_name"

subsection \<open>EPSG codes, geotransform, metadata\<close>

fun epsg_loop :: "h5fs \<Rightarrow> path list \<Rightarrow> error + int list" where
  "epsg_loop fs [] = Inr []"
| "epsg_loop fs (input_rtc # rest) =
     (case fs input_rtc of
        None \<Rightarrow> Inl FileNotFoundError
      | Some src_h5 \<Rightarrow>
          (case epsg_loop fs rest of
             Inl e \<Rightarrow> Inl e
           | Inr codes \<Rightarrow> Inr (projection src_h5 # codes)))"

definition get_nisar_epsg :: "h5fs \<Rightarrow> path list \<Rightarrow> error + int list \<times> bool" where
  "get_nisar_epsg fs input_list =
     (case epsg_loop fs input_list of
        Inl e \<Rightarrow> Inl e
      | Inr epsg_array \<Rightarrow>
          (case epsg_array of
             [] \<Rightarrow> Inl IndexError
           | first # _ \<Rightarrow> Inr (epsg_array, list_all (\<lambda>c. c = first) epsg_array)))"

definition read_geodata_hdf5 :: "h5fs \<Rightarrow> path \<Rightarrow> error + affine \<times> crs" where
  "read_geodata_hdf5 fs input_rtc =
     (case fs input_rtc of
        None \<Rightarrow> Inl FileNotFoundError
      | Some src_h5 \<Rightarrow>
          (case xCoordinates src_h5 of
             [] \<Rightarrow> Inl IndexError
           | xmin # _ \<Rightarrow>
               (case yCoordinates src_h5 of
                  [] \<Rightarrow> Inl IndexError
                | ymin # _ \<Rightarrow>
                    (let xres = xCoordinateSpacing src_h5;
                         yres = yCoordinateSpacing src_h5;
                         epsg = projection src_h5;
                         geotransform =
                           affine_mul (Affine_translation (xmin - xres / 2) (ymin - yres / 2))
                                      (Affine_scale xres yres)
                     in Inr (geotransform, EPSG epsg)))))"

definition read_metadata_hdf5 :: "h5fs \<Rightarrow> path \<Rightarrow> error + tags" where
  "read_metadata_hdf5 fs input_rtc =
     (case fs input_rtc of
        None \<Rightarrow> Inl FileNotFoundError
      | Some src_h5 \<Rightarrow>
          (case l1SlcGranules src_h5 of
             [] \<Rightarrow> Inl IndexError
           | input_slc_granules # _ \<Rightarrow>
               Inr [(''ORBIT_PASS_DIRECTION'', TStr (orbitPassDirection src_h5)),
                    (''LOOK_DIRECTION'', TStr (lookDirection src_h5)),
                    (''INPUT_L1_SLC_GRANULES'', TStr input_slc_granules),
                    (''PRODUCT_VERSION'', TStr (productVersion src_h5)),
                    (''ZERO_DOPPLER_START_TIME'', TStr (zeroDopplerStartTime src_h5)),
                    (''ZERO_DOPPLER_END_TIME'', TStr (zeroDopplerEndTime src_h5)),
                    (''FRAME_NUMBER'', TInt (frameNumber src_h5)),
                    (''TRACK_NUMBER'', TInt (trackNumber src_h5)),
                    (''ABSOLUTE_ORBIT_NUMBER'', TInt (absoluteOrbitNumber src_h5))]))"

text \<open>
  \<open>gdal.Open(f'HDF5:{input_rtc}:/{dataset_path}')\<close>: the dataset, or nothing when the
  file or the dataset inside it is missing.
\<close>

definition gdal_Open :: "h5fs \<Rightarrow> path \<Rightarrow> string \<Rightarrow> dataset option" where
  "gdal_Open fs input_rtc dataset_path =
     (case fs input_rtc of
        None \<Rightarrow> None
      | Some src_h5 \<Rightarrow> datasets src_h5 dataset_path)"

section \<open>Tiled raster writer: \<open>read_write_rtc\<close>\<close>

text \<open>
  The inner loop over the column slices of one row slice, and the outer loop over the row
  slices. The column generator is started anew for every row slice. A fault leaves the
  raster as written so far.
\<close>

fun write_cols ::
  "dataset \<Rightarrow> sample \<Rightarrow> slice \<Rightarrow> slice list \<Rightarrow> raster \<Rightarrow> (error + unit) \<times> raster" where
  "write_cols h5_ds designated_value slice_row [] dst = (Inr (), dst)"
| "write_cols h5_ds designated_value slice_row (slice_col # rest) dst =
     (let row_slice_size = snd slice_row - fst slice_row;
          col_slice_size = snd slice_col - fst slice_col
      in case ReadAsArray h5_ds (fst slice_col) (fst slice_row) col_slice_size row_slice_size of
           None \<Rightarrow> (Inl ReadError, dst)
         | Some ds_blk \<Rightarrow>
             (case write_window dst (sanitize_blk designated_value ds_blk)
                     (fst slice_col) (fst slice_row) col_slice_size row_slice_size of
                Inl e \<Rightarrow> (Inl e, dst)
              | Inr dst' \<Rightarrow> write_cols h5_ds designated_value slice_row rest dst'))"

fun write_rows ::
  "dataset \<Rightarrow> sample \<Rightarrow> error + slice list \<Rightarrow> slice list \<Rightarrow> raster \<Rightarrow> (error + unit) \<times> raster" where
  "write_rows h5_ds designated_value col_slices [] dst = (Inr (), dst)"
| "write_rows h5_ds designated_value col_slices (slice_row # rest) dst =
     (case col_slices of
        Inl e \<Rightarrow> (Inl e, dst)
      | Inr cols \<Rightarrow>
          (case write_cols h5_ds designated_value slice_row cols dst of
             (Inl e, dst') \<Rightarrow> (Inl e, dst')
           | (Inr u, dst') \<Rightarrow> write_rows h5_ds designated_value col_slices rest dst'))"

text \<open>
  The two block-size parameters are overwritten from the reader object in the first two
  statements of the body.
\<close>

definition read_write_rtc ::
  "reader \<Rightarrow> dataset \<Rightarrow> path \<Rightarrow> int \<Rightarrow> int \<Rightarrow> int \<Rightarrow> int \<Rightarrow> sample \<Rightarrow> affine \<Rightarrow> crs \<Rightarrow> tags
     \<Rightarrow> state \<Rightarrow> (error + unit) \<times> state" where
  "read_write_rtc self h5_ds output_gtiff num_rows num_cols row_blk_size col_blk_size
       designated_value geotransform crs dswx_metadata_dict st =
     (let row_blk_size = self_row_blk_size self;
          col_blk_size = self_col_blk_size self;
          dst = \<lparr>r_height = num_rows, r_width = num_cols, r_crs = crs,
                 r_transform = geotransform, r_tags = [], r_band = (\<lambda>rc. None)\<rparr>
      in case slice_gen num_rows row_blk_size True of
           Inl e \<Rightarrow> (Inl e, put_raster output_gtiff dst st)
         | Inr row_slices \<Rightarrow>
             (case write_rows h5_ds designated_value (slice_gen num_cols col_blk_size True)
                     row_slices dst of
                (Inl e, dst') \<Rightarrow> (Inl e, put_raster output_gtiff dst' st)
              | (Inr u, dst') \<Rightarrow>
                  (Inr (), put_raster output_gtiff (dst'\<lparr>r_tags := dswx_metadata_dict\<rparr>) st)))"


text \<open>
  \<open>written_ok ds dst\<close>: every cell written to the raster \<open>dst\<close> holds the sample of
  the dataset \<open>ds\<close> at the same place, with both infinities and every value above 500
  turned into 500 and zero into not-a-number.
\<close>

definition written_ok :: "dataset \<Rightarrow> raster \<Rightarrow> bool" where
  "written_ok ds dst \<longleftrightarrow>
     (\<forall>r c v. r_band dst (r, c) = Some v \<longrightarrow>
        v = (let x = ds_cell ds r c
             in if x = PosInf \<or> x = NegInf then Num 500
                else if np_greater x (Num 500) then Num 500
                else if x = Num 0 then NaN
                else x))"

section \<open>Mosaic orchestrator\<close>

subsection \<open>\<open>write_rtc_geotiff\<close>\<close>

text \<open>
  The local variables of \<open>write_rtc_geotiff\<close> that one of its three loops reads after
  another loop, or an earlier iteration, assigned them. A Python local lives until the
  function returns, and reading one that was never assigned raises \<open>UnboundLocalError\<close>;
  so each is an option. \<open>geotransform\<close> and \<open>crs\<close> are assigned together.
\<close>

record frame =
  l_output_gtiff :: "path option"
  l_num_rows :: "int option"
  l_row_blk_size :: "int option"
  l_geo :: "(affine \<times> crs) option"
  l_metadata :: "tags option"

definition index_epsg :: "int list \<Rightarrow> nat \<Rightarrow> error + int" where
  "index_epsg epsg_array input_idx =
     (if input_idx < length epsg_array then Inr (epsg_array ! input_idx) else Inl IndexError)"

text \<open>First loop (lines 151-185), inner part: one intermediate GeoTIFF per dataset path.\<close>

fun stage_datasets ::
  "reader \<Rightarrow> h5fs \<Rightarrow> path \<Rightarrow> path \<Rightarrow> string \<Rightarrow> sample \<Rightarrow> affine \<Rightarrow> crs \<Rightarrow> tags
     \<Rightarrow> string list \<Rightarrow> frame \<times> state \<Rightarrow> (error + frame) \<times> state" where
  "stage_datasets self fs scratch_dir input_rtc output_prefix designated_value
       geotransform crs dswx_metadata_dict [] (loc, st) = (Inr loc, st)"
| "stage_datasets self fs scratch_dir input_rtc output_prefix designated_value
       geotransform crs dswx_metadata_dict (dataset_path # rest) (loc, st) =
     (let data_name = data_name_of dataset_path;
          output_gtiff = gtiff_path scratch_dir output_prefix data_name
      in case gdal_Open fs input_rtc dataset_path of
           None \<Rightarrow> (Inl AttributeError, st)
         | Some h5_ds \<Rightarrow>
             (let num_cols = RasterXSize h5_ds;
                  num_rows = RasterYSize h5_ds;
                  row_blk_size = self_row_blk_size self;
                  col_blk_size = self_col_blk_size self
              in case read_write_rtc self h5_ds output_gtiff num_rows num_cols
                        row_blk_size col_blk_size designated_value
                        geotransform crs dswx_metadata_dict st of
                   (Inl e, st') \<Rightarrow> (Inl e, st')
                 | (Inr u, st') \<Rightarrow>
                     stage_datasets self fs scratch_dir input_rtc output_prefix designated_value
                       geotransform crs dswx_metadata_dict rest
                       (loc\<lparr>l_output_gtiff := Some output_gtiff,
                            l_num_rows := Some num_rows,
                            l_row_blk_size := Some row_blk_size\<rparr>, st')))"

text \<open>First loop, outer part: over the input products.\<close>

fun stage_inputs ::
  "reader \<Rightarrow> h5fs \<Rightarrow> path \<Rightarrow> sample \<Rightarrow> string list \<Rightarrow> path list \<Rightarrow> frame \<times> state
     \<Rightarrow> (error + frame) \<times> state" where
  "stage_inputs self fs scratch_dir designated_value data_path [] (loc, st) = (Inr loc, st)"
| "stage_inputs self fs scratch_dir designated_value data_path (input_rtc # rest) (loc, st) =
     (case extract_file_name fs input_rtc of
        Inl e \<Rightarrow> (Inl e, st)
      | Inr output_prefix \<Rightarrow>
          (case read_geodata_hdf5 fs input_rtc of
             Inl e \<Rightarrow> (Inl e, st)
           | Inr (geotransform, crs) \<Rightarrow>
               (case read_metadata_hdf5 fs input_rtc of
                  Inl e \<Rightarrow> (Inl e, st)
                | Inr dswx_metadata_dict \<Rightarrow>
                    (case stage_datasets self fs scratch_dir input_rtc output_prefix
                            designated_value geotransform crs dswx_metadata_dict data_path
                            (loc\<lparr>l_geo := Some (geotransform, crs),
                                 l_metadata := Some dswx_metadata_dict\<rparr>, st) of
                       (Inl e, st') \<Rightarrow> (Inl e, st')
                     | (Inr loc', st') \<Rightarrow>
                         stage_inputs self fs scratch_dir designated_value data_path rest
                           (loc', st')))))"

text \<open>
  Second loop (lines 189-220), the branch of an input whose EPSG code differs from the
  majority: reproject to the temporary file, update the geogrid with \<open>output_gtiff\<close>
  (the variable is not assigned in this branch), replace the input file.
\<close>

fun harmonize_reproject ::
  "collaborators \<Rightarrow> path \<Rightarrow> string \<Rightarrow> int \<Rightarrow> frame \<Rightarrow> string list \<Rightarrow> geogrid \<times> state
     \<Rightarrow> (error + geogrid) \<times> state" where
  "harmonize_reproject env scratch_dir input_prefix most_freq_epsg loc [] (geogrid_in, st) =
     (Inr geogrid_in, st)"
| "harmonize_reproject env scratch_dir input_prefix most_freq_epsg loc (dataset_path # rest)
       (geogrid_in, st) =
     (let data_name = data_name_of dataset_path;
          input_gtiff = gtiff_path scratch_dir input_prefix data_name;
          temp_gtiff = temp_path scratch_dir input_prefix data_name
      in case change_epsg_tif env input_gtiff temp_gtiff most_freq_epsg 255 st of
           (Inl e, st1) \<Rightarrow> (Inl e, st1)
         | (Inr u, st1) \<Rightarrow>
             (case l_output_gtiff loc of
                None \<Rightarrow> (Inl UnboundLocalError, st1)
              | Some output_gtiff \<Rightarrow>
                  (case update_geogrid geogrid_in output_gtiff st1 of
                     Inl e \<Rightarrow> (Inl e, st1)
                   | Inr geogrid1 \<Rightarrow>
                       harmonize_reproject env scratch_dir input_prefix most_freq_epsg loc rest
                         (geogrid1, os_replace temp_gtiff input_gtiff st1))))"

text \<open>Second loop, the branch of an input that has the majority EPSG code.\<close>

fun harmonize_register ::
  "path \<Rightarrow> string \<Rightarrow> state \<Rightarrow> string list \<Rightarrow> frame \<times> geogrid \<Rightarrow> error + frame \<times> geogrid" where
  "harmonize_register scratch_dir input_prefix st [] (loc, geogrid_in) = Inr (loc, geogrid_in)"
| "harmonize_register scratch_dir input_prefix st (dataset_path # rest) (loc, geogrid_in) =
     (let data_name = data_name_of dataset_path;
          output_gtiff = gtiff_path scratch_dir input_prefix data_name
      in case update_geogrid geogrid_in output_gtiff st of
           Inl e \<Rightarrow> Inl e
         | Inr geogrid1 \<Rightarrow>
             harmonize_register scratch_dir input_prefix st rest
               (loc\<lparr>l_output_gtiff := Some output_gtiff\<rparr>, geogrid1))"

text \<open>Second loop, outer part.\<close>

fun harmonize_inputs ::
  "collaborators \<Rightarrow> h5fs \<Rightarrow> path \<Rightarrow> int list \<Rightarrow> int \<Rightarrow> string list \<Rightarrow> nat \<Rightarrow> path list
     \<Rightarrow> frame \<times> geogrid \<times> state \<Rightarrow> (error + frame \<times> geogrid) \<times> state" where
  "harmonize_inputs env fs scratch_dir epsg_array most_freq_epsg data_path input_idx []
       (loc, geogrid_in, st) = (Inr (loc, geogrid_in), st)"
| "harmonize_inputs env fs scratch_dir epsg_array most_freq_epsg data_path input_idx
       (input_rtc # rest) (loc, geogrid_in, st) =
     (case extract_file_name fs input_rtc of
        Inl e \<Rightarrow> (Inl e, st)
      | Inr input_prefix \<Rightarrow>
          (case index_epsg epsg_array input_idx of
             Inl e \<Rightarrow> (Inl e, st)
           | Inr epsg \<Rightarrow>
               if epsg \<noteq> most_freq_epsg then
                 (case harmonize_reproject env scratch_dir input_prefix most_freq_epsg loc
                         data_path (geogrid_in, st) of
                    (Inl e, st1) \<Rightarrow> (Inl e, st1)
                  | (Inr geogrid1, st1) \<Rightarrow>
                      harmonize_inputs env fs scratch_dir epsg_array most_freq_epsg data_path
                        (Suc input_idx) rest (loc, geogrid1, st1))
               else
                 (case harmonize_register scratch_dir input_prefix st data_path
                         (loc, geogrid_in) of
                    Inl e \<Rightarrow> (Inl e, st)
                  | Inr (loc1, geogrid1) \<Rightarrow>
                      harmonize_inputs env fs scratch_dir epsg_array most_freq_epsg data_path
                        (Suc input_idx) rest (loc1, geogrid1, st))))"

text \<open>
  Third loop (lines 223-275), over the input products: the layover/shadow mask. The loop
  stops at the first input without the mask, with \<open>layover_exist = False\<close>. The raster
  is written with \<open>num_rows\<close>, \<open>row_blk_size\<close>, \<open>geotransform\<close>, \<open>crs\<close> and
  \<open>dswx_metadata_dict\<close> as the first loop left them.
\<close>

fun layover_inputs ::
  "collaborators \<Rightarrow> reader \<Rightarrow> h5fs \<Rightarrow> path \<Rightarrow> int list \<Rightarrow> int \<Rightarrow> sample \<Rightarrow> string \<Rightarrow> frame
     \<Rightarrow> nat \<Rightarrow> path list \<Rightarrow> bool option \<times> geogrid \<times> state
     \<Rightarrow> (error + bool option \<times> geogrid) \<times> state" where
  "layover_inputs env self fs scratch_dir epsg_array most_freq_epsg designated_value
       layover_path loc input_idx [] (layover_exist, geogrid_in, st) =
     (Inr (layover_exist, geogrid_in), st)"
| "layover_inputs env self fs scratch_dir epsg_array most_freq_epsg designated_value
       layover_path loc input_idx (input_rtc # rest) (layover_exist, geogrid_in, st) =
     (case gdal_Open fs input_rtc layover_path of
        None \<Rightarrow> (Inr (Some False, geogrid_in), st)
      | Some h5_layover \<Rightarrow>
          (case extract_file_name fs input_rtc of
             Inl e \<Rightarrow> (Inl e, st)
           | Inr output_prefix \<Rightarrow>
               (let output_layover_gtiff = gtiff_path scratch_dir output_prefix ''layover'';
                    num_cols = RasterXSize h5_layover;
                    col_blk_size = self_col_blk_size self
                in case (l_num_rows loc, l_row_blk_size loc, l_geo loc, l_metadata loc) of
                     (Some num_rows, Some row_blk_size, Some (geotransform, crs),
                      Some dswx_metadata_dict) \<Rightarrow>
                       (case read_write_rtc self h5_layover output_layover_gtiff num_rows
                               num_cols row_blk_size col_blk_size designated_value
                               geotransform crs dswx_metadata_dict st of
                          (Inl e, st1) \<Rightarrow> (Inl e, st1)
                        | (Inr u, st1) \<Rightarrow>
                            (case index_epsg epsg_array input_idx of
                               Inl e \<Rightarrow> (Inl e, st1)
                             | Inr epsg \<Rightarrow>
                                 if epsg \<noteq> most_freq_epsg then
                                   (case extract_file_name fs input_rtc of
                                      Inl e \<Rightarrow> (Inl e, st1)
                                    | Inr input_prefix \<Rightarrow>
                                        (let input_layover_gtiff =
                                               gtiff_path scratch_dir input_prefix ''layover'';
                                             temp_layover_gtiff =
                                               temp_path scratch_dir input_prefix ''layover''
                                         in case change_epsg_tif env input_layover_gtiff
                                                   temp_layover_gtiff most_freq_epsg 255 st1 of
                                              (Inl e, st2) \<Rightarrow> (Inl e, st2)
                                            | (Inr u2, st2) \<Rightarrow>
                                                (case update_geogrid geogrid_in
                                                        output_layover_gtiff st2 of
                                                   Inl e \<Rightarrow> (Inl e, st2)
                                                 | Inr geogrid1 \<Rightarrow>
                                                     layover_inputs env self fs scratch_dir
                                                       epsg_array most_freq_epsg designated_value
                                                       layover_path loc (Suc input_idx) rest
                                                       (Some True, geogrid1,
                                                        os_replace temp_layover_gtiff
                                                          input_layover_gtiff st2))))
                                 else
                                   (case update_geogrid geogrid_in output_layover_gtiff st1 of
                                      Inl e \<Rightarrow> (Inl e, st1)
                                    | Inr geogrid1 \<Rightarrow>
                                        layover_inputs env self fs scratch_dir epsg_array
                                          most_freq_epsg designated_value layover_path loc
                                          (Suc input_idx) rest (Some True, geogrid1, st1))))
                   | _ \<Rightarrow> (Inl UnboundLocalError, st))))"

definition write_rtc_geotiff ::
  "collaborators \<Rightarrow> reader \<Rightarrow> h5fs \<Rightarrow> path list \<Rightarrow> path \<Rightarrow> path \<Rightarrow> int list \<Rightarrow> string list
     \<Rightarrow> string \<Rightarrow> state \<Rightarrow> (error + bool \<times> geogrid) \<times> state" where
  "write_rtc_geotiff env self fs input_list output_dir scratch_dir epsg_array data_path
       layover_path st =
     (let most_freq_epsg = majority_element env epsg_array;
          designated_value = Num 500;
          loc0 = \<lparr>l_output_gtiff = None, l_num_rows = None, l_row_blk_size = None,
                  l_geo = None, l_metadata = None\<rparr>
      in case stage_inputs self fs scratch_dir designated_value data_path input_list
                (loc0, st) of
           (Inl e, st1) \<Rightarrow> (Inl e, st1)
         | (Inr loc1, st1) \<Rightarrow>
             (case harmonize_inputs env fs scratch_dir epsg_array most_freq_epsg data_path 0
                     input_list (loc1, [], st1) of
                (Inl e, st2) \<Rightarrow> (Inl e, st2)
              | (Inr (loc2, geogrid2), st2) \<Rightarrow>
                  (case layover_inputs env self fs scratch_dir epsg_array most_freq_epsg
                          designated_value layover_path loc2 0 input_list
                          (None, geogrid2, st2) of
                     (Inl e, st3) \<Rightarrow> (Inl e, st3)
                   | (Inr (layover_exist, geogrid3), st3) \<Rightarrow>
                       (case layover_exist of
                          None \<Rightarrow> (Inl UnboundLocalError, st3)
                        | Some flag \<Rightarrow> (Inr (flag, geogrid3), st3)))))"



subsection \<open>\<open>mosaic_rtc_geotiff\<close>\<close>

text \<open>The list of intermediate GeoTIFFs of one data name, one per input product.\<close>

fun gtiff_list :: "h5fs \<Rightarrow> path \<Rightarrow> string \<Rightarrow> path list \<Rightarrow> path list \<Rightarrow> error + path list" where
  "gtiff_list fs scratch_dir data_name input_gtiff_list [] = Inr input_gtiff_list"
| "gtiff_list fs scratch_dir data_name input_gtiff_list (input_rtc # rest) =
     (case extract_file_name fs input_rtc of
        Inl e \<Rightarrow> Inl e
      | Inr input_prefix \<Rightarrow>
          gtiff_list fs scratch_dir data_name
            (input_gtiff_list @ [gtiff_path scratch_dir input_prefix data_name]) rest)"

fun mosaic_channels ::
  "h5fs \<Rightarrow> path list \<Rightarrow> path \<Rightarrow> path \<Rightarrow> geogrid \<Rightarrow> path list \<Rightarrow> string \<Rightarrow> string
     \<Rightarrow> string list \<Rightarrow> state \<Rightarrow> (error + unit) \<times> state" where
  "mosaic_channels fs input_list output_dir scratch_dir geogrid_in nlooks_list mosaic_mode
       mosaic_prefix [] st = (Inr (), st)"
| "mosaic_channels fs input_list output_dir scratch_dir geogrid_in nlooks_list mosaic_mode
       mosaic_prefix (dataset_path # rest) st =
     (let data_name = data_name_of dataset_path
      in case gtiff_list fs scratch_dir data_name [] input_list of
           Inl e \<Rightarrow> (Inl e, st)
         | Inr input_gtiff_list \<Rightarrow>
             (let output_mosaic_gtiff = gtiff_path output_dir mosaic_prefix data_name
              in mosaic_channels fs input_list output_dir scratch_dir geogrid_in nlooks_list
                   mosaic_mode mosaic_prefix rest
                   (mosaic_single_output_file input_gtiff_list nlooks_list output_mosaic_gtiff
                      mosaic_mode scratch_dir geogrid_in st)))"

definition mosaic_rtc_geotiff ::
  "h5fs \<Rightarrow> path list \<Rightarrow> string list \<Rightarrow> path \<Rightarrow> path \<Rightarrow> geogrid \<Rightarrow> path list \<Rightarrow> string
     \<Rightarrow> string \<Rightarrow> bool \<Rightarrow> state \<Rightarrow> (error + unit) \<times> state" where
  "mosaic_rtc_geotiff fs input_list data_path output_dir scratch_dir geogrid_in nlooks_list
       mosaic_mode mosaic_prefix layover_exist st =
     (case mosaic_channels fs input_list output_dir scratch_dir geogrid_in nlooks_list
             mosaic_mode mosaic_prefix data_path st of
        (Inl e, st1) \<Rightarrow> (Inl e, st1)
      | (Inr u, st1) \<Rightarrow>
          if layover_exist then
            (case gtiff_list fs scratch_dir ''layover'' [] input_list of
               Inl e \<Rightarrow> (Inl e, st1)
             | Inr layover_gtiff_list \<Rightarrow>
                 (let layover_mosaic_gtiff = gtiff_path output_dir mosaic_prefix ''layover''
                  in (Inr (), mosaic_single_output_file layover_gtiff_list nlooks_list
                                layover_mosaic_gtiff mosaic_mode scratch_dir geogrid_in st1)))
          else (Inr (), st1))"


subsection \<open>\<open>process_rtc_hdf5\<close>\<close>

definition process_rtc_hdf5 ::
  "collaborators \<Rightarrow> reader \<Rightarrow> h5fs \<Rightarrow> path list \<Rightarrow> path \<Rightarrow> path \<Rightarrow> string \<Rightarrow> string \<Rightarrow> state
     \<Rightarrow> (error + unit) \<times> state" where
  "process_rtc_hdf5 env self fs input_list output_dir scratch_dir mosaic_mode mosaic_prefix st =
     (case extract_nisar_polarization fs input_list of
        Inl e \<Rightarrow> (Inl e, st)
      | Inr pols_rtc \<Rightarrow>
          (let data_path = generate_nisar_dataset_name pols_rtc;
               layover_mask_name = ''layoverShadowMask'';
               layover_path = generate_nisar_layover_name layover_mask_name
           in case get_nisar_epsg fs input_list of
                Inl e \<Rightarrow> (Inl e, st)
              | Inr (epsg_array, epsg_same_flag) \<Rightarrow>
                  (case write_rtc_geotiff env self fs input_list output_dir scratch_dir
                          epsg_array data_path layover_path st of
                     (Inl e, st1) \<Rightarrow> (Inl e, st1)
                   | (Inr (layover_exist, geogrid_in), st1) \<Rightarrow>
                       (let nlooks_list = []
                        in mosaic_rtc_geotiff fs input_list data_path output_dir scratch_dir
                             geogrid_in nlooks_list mosaic_mode mosaic_prefix layover_exist
                             st1))))"


subsection \<open>\<open>run\<close>\<close>

text \<open>
  The run configuration, as far as \<open>run\<close> reads it. The scratch directory is given to
  \<open>process_rtc_hdf5\<close> both as output and as scratch directory.
\<close>

record run_config =
  input_file_path :: "path list"
  cfg_mosaic_mode :: string
  cfg_mosaic_prefix :: string
  scratch_path :: path
  read_row_blk_size :: int
  read_col_blk_size :: int

definition run :: "collaborators \<Rightarrow> h5fs \<Rightarrow> run_config \<Rightarrow> state \<Rightarrow> (error + unit) \<times> state" where
  "run env fs cfg st =
     (let input_list = input_file_path cfg;
          mosaic_mode = cfg_mosaic_mode cfg;
          mosaic_prefix = cfg_mosaic_prefix cfg;
          scratch_dir = scratch_path cfg;
          row_blk_size = read_row_blk_size cfg;
          col_blk_size = read_col_blk_size cfg;
          reader = \<lparr>self_row_blk_size = row_blk_size, self_col_blk_size = col_blk_size\<rparr>
      in process_rtc_hdf5 env reader fs input_list scratch_dir scratch_dir mosaic_mode
           mosaic_prefix st)"

section \<open>Example inputs\<close>

text \<open>
  Small products on which the theorems below are instantiated: one column, \<open>rows\<close> rows,
  every sample 1, the channels of \<open>pols\<close>, and the layover/shadow mask when
  \<open>has_layover\<close>.
\<close>

definition example_dataset :: "int \<Rightarrow> dataset" where
  "example_dataset rows = \<lparr>RasterXSize = 1, RasterYSize = rows, ds_cell = (\<lambda>r c. Num 1)\<rparr>"

definition example_product :: "string list \<Rightarrow> int \<Rightarrow> real \<Rightarrow> int \<Rightarrow> bool \<Rightarrow> product" where
  "example_product pols epsg xmin rows has_layover =
     \<lparr>listOfPolarizations = pols, projection = epsg,
      xCoordinates = [xmin], yCoordinates = [0],
      xCoordinateSpacing = 2, yCoordinateSpacing = 2,
      orbitPassDirection = ''Ascending'', lookDirection = ''Left'', productVersion = ''1'',
      zeroDopplerStartTime = ''t0'', zeroDopplerEndTime = ''t1'',
      frameNumber = rows, trackNumber = 1, absoluteOrbitNumber = 1,
      l1SlcGranules = [''granule''],
      datasets = (\<lambda>p. if p \<in> set (generate_nisar_dataset_name pols)
                          then Some (example_dataset rows)
                       else if has_layover
                               \<and> p = generate_nisar_layover_name ''layoverShadowMask''
                          then Some (example_dataset rows)
                       else None)\<rparr>"

text \<open>
  Example collaborators: the code that occurs most often (the first such on a tie), and a
  reprojection that only relabels the coordinate system.
\<close>

definition example_env :: collaborators where
  "example_env =
     \<lparr>majority_element =
        (\<lambda>xs. fst (fold (\<lambda>x (best, n). if n < count_list xs x then (x, count_list xs x)
                                        else (best, n)) xs (0, 0))),
      reproject = (\<lambda>r epsg nodata. Inr (r\<lparr>r_crs := EPSG epsg\<rparr>))\<rparr>"

definition example_reader :: reader where
  "example_reader = \<lparr>self_row_blk_size = 1, self_col_blk_size = 1\<rparr>"

definition empty_state :: state where
  "empty_state = \<lparr>rasters = (\<lambda>p. None), mosaics = []\<rparr>"


text \<open>
  Two products of one coordinate system, both with the mask; they differ in origin, in
  number of rows and in frame number.
\<close>

definition fs_two_masks :: h5fs where
  "fs_two_masks =
     [''in/A.h5'' \<mapsto> example_product [''HH''] 32611 0 2 True,
      ''in/B.h5'' \<mapsto> example_product [''HH''] 32611 10 1 True]"


text \<open>
  Five products without the mask; the first and the last are in another coordinate system
  than the three between them.
\<close>

definition fs_five :: h5fs where
  "fs_five =
     [''in/X.h5'' \<mapsto> example_product [''HH''] 32610 0 1 False,
      ''in/A.h5'' \<mapsto> example_product [''HH''] 32611 10 1 False,
      ''in/B.h5'' \<mapsto> example_product [''HH''] 32611 20 1 False,
      ''in/C.h5'' \<mapsto> example_product [''HH''] 32611 30 1 False,
      ''in/Y.h5'' \<mapsto> example_product [''HH''] 32610 40 1 False]"

text \<open>A one-cell dataset holding negative infinity.\<close>

definition example_neginf_dataset :: dataset where
  "example_neginf_dataset = \<lparr>RasterXSize = 1, RasterYSize = 1, ds_cell = (\<lambda>r c. NegInf)\<rparr>"

text \<open>Two products with different polarizations; \<open>in/C.h5\<close> does not exist.\<close>

definition fs_two_pols :: h5fs where
  "fs_two_pols =
     [''in/A.h5'' \<mapsto> example_product [''HH''] 32611 0 1 True,
      ''in/B.h5'' \<mapsto> example_product [''VV''] 32611 10 1 True]"



section \<open>Properties of the tiling engine\<close>

lemma tiles_append: "tiles a (xs @ ys) c \<longleftrightarrow> (\<exists>b. tiles a xs b \<and> tiles b ys c)"
  by (induction xs arbitrary: a) auto

lemma tiles_le: "tiles a xs b \<Longrightarrow> a \<le> b"
  by (induction xs arbitrary: a) force+

lemma tiles_covered: "tiles a xs b \<Longrightarrow> covered xs = {a..<b}"
proof (induction xs arbitrary: a)
  case Nil
  then show ?case by (simp add: covered_def)
next
  case (Cons x xs)
  obtain s e where x: "x = (s, e)" by (cases x)
  from Cons.prems x have h: "s = a" "s < e" "tiles e xs b" by simp_all
  from h(3) have "e \<le> b" by (rule tiles_le)
  moreover from Cons.IH [OF h(3)] have "covered xs = {e..<b}" .
  moreover have "covered (x # xs) = {s..<e} \<union> covered xs"
    by (simp add: covered_def x)
  ultimately show ?case using h(1,2) by auto
qed

lemma tiles_py_range:
  "0 < b \<Longrightarrow> i \<le> stop \<Longrightarrow> b dvd (stop - i) \<Longrightarrow>
   tiles i (map (\<lambda>s. (s, s + b)) (py_range i stop b)) stop"
proof (induction i stop b rule: py_range.induct)
  case (1 i stop step)
  show ?case
  proof (cases "i < stop")
    case True
    from "1.prems" True have "step \<le> stop - i"
      by (auto intro: zdvd_imp_le)
    moreover from "1.prems" have "step dvd (stop - (i + step))"
      by (metis diff_diff_eq dvd_diff dvd_refl)
    ultimately have "tiles (i + step) (map (\<lambda>s. (s, s + step)) (py_range (i + step) stop step)) stop"
      using "1.IH"(1) "1.prems" True by simp
    then show ?thesis using True "1.prems"(1)
      by (subst py_range.simps) simp
  next
    case False
    with "1.prems" have "i = stop" by simp
    then show ?thesis by (subst py_range.simps) simp
  qed
qed

text \<open>
  When the extent is empty or holds at least one whole block, the slices of \<open>slice_gen\<close>
  partition \<open>[0, tot)\<close>, and each is at least one block long.
\<close>

lemma slice_gen_partition:
  assumes b: "0 < block" and t: "block \<le> tot \<or> tot = 0"
  shows "\<exists>xs. slice_gen tot block True = Inr xs \<and> tiles 0 xs tot
             \<and> (\<forall>r \<in> set xs. block \<le> snd r - fst r)"
proof -
  define n where "n = (tot div block) * block"
  have n0: "0 \<le> n" using b t by (auto simp: n_def pos_imp_zdiv_nonneg_iff)
  have "tot = n + tot mod block" by (simp add: n_def)
  moreover have "0 \<le> tot mod block" using b by simp
  ultimately have nle: "n \<le> tot" by linarith
  have dv: "block dvd n" by (simp add: n_def)
  show ?thesis
  proof (cases "tot - n > 0")
    case True
    with t have bt: "block \<le> tot" using n0 n_def by auto
    moreover have "tot mod block < block" using b by simp
    moreover have "tot = n + tot mod block" by (simp add: n_def)
    ultimately have "0 < n" by linarith
    with dv have bn: "block \<le> n" by (rule zdvd_imp_le)
    have "tiles 0 (map (\<lambda>s. (s, s + block)) (py_range 0 (n - block) block)) (n - block)"
      using b bn dv by (intro tiles_py_range) auto
    moreover have "tiles (n - block) [(n - block, tot)] tot"
      using b nle by simp
    ultimately have "tiles 0 (map (\<lambda>s. (s, s + block)) (py_range 0 (n - block) block)
                       @ [(n - block, tot)]) tot"
      unfolding tiles_append by blast
    moreover have "block \<le> tot - (n - block)" using nle by simp
    ultimately show ?thesis using b True
      by (auto simp: slice_gen_def Let_def n_def)
  next
    case False
    with nle have eq: "n = tot" by simp
    have "tiles 0 (map (\<lambda>s. (s, s + block)) (py_range 0 n block)) n"
      using b n0 dv by (intro tiles_py_range) auto
    then show ?thesis using b False eq
      by (auto simp: slice_gen_def Let_def n_def)
  qed
qed

lemma slice_gen_zero: "block \<noteq> 0 \<Longrightarrow> slice_gen 0 block cr = Inr []"
  by (simp add: slice_gen_def py_range.simps)

lemma slice_gen_small:
  "0 < tot \<Longrightarrow> tot < block \<Longrightarrow> slice_gen tot block True = Inr [(- block, tot)]"
  by (simp add: slice_gen_def py_range.simps)

text \<open>
  A dataset of three rows read with a block size of five: the one row slice starts at -5,
  the read leaves the dataset, and the writer fails.
\<close>

lemma read_write_rtc_short_extent_fails:
  "fst (read_write_rtc \<lparr>self_row_blk_size = 5, self_col_blk_size = 1\<rparr> (example_dataset 3)
          ''out.tif'' 3 1 5 1 (Num 500) (Affine 1 0 0 0 1 0) (EPSG 32611) [] empty_state)
   = Inl ReadError"
  by code_simp

text \<open>
  C1. The claim: for every total \<open>\<ge> 0\<close> and block \<open>> 0\<close> the ranges of
  \<open>slice_gen\<close> (with \<open>combine_rem = True\<close>) partition \<open>[0, total)\<close>. The code
  breaks it when \<open>0 < total < block\<close>: with no whole block, the start of the last block is
  computed as \<open>- block\<close>. For total 3 and block 5 the only range yielded is \<open>[-5, 3)\<close>,
  which does not tile \<open>[0, 3)\<close>.
\<close>

theorem slice_gen_short_extent_not_partition:
  "slice_gen 3 5 True = Inr [(- 5, 3)] \<and> \<not> tiles 0 [(- 5, 3)] 3"
  by (simp add: slice_gen_def py_range.simps)

text \<open>
  C2. The claim: if \<open>0 < total < block\<close> then \<open>slice_gen\<close> yields the one range
  \<open>[0, total)\<close>, and if \<open>total = 0\<close> it yields nothing. The second half holds
  (\<open>slice_gen_zero\<close>); the first fails on the code (\<open>slice_gen_small\<close>): for total 2 and
  block 4 the range yielded is \<open>[-4, 2)\<close>, not \<open>[0, 2)\<close>.
\<close>

theorem slice_gen_short_extent_negative_start:
  "slice_gen 2 4 True = Inr [(- 4, 2)] \<and> slice_gen 2 4 True \<noteq> Inr [(0, 2)]"
  by (simp add: slice_gen_def py_range.simps)

section \<open>Properties of the tiled raster writer\<close>

lemma sanitize_blk_map:
  "sanitize_blk (Num 500) blk =
     map (map (\<lambda>x. if x = PosInf \<or> x = NegInf then Num 500
                    else if np_greater x (Num 500) then Num 500
                    else if x = Num 0 then NaN
                    else x)) blk"
proof -
  have "(if np_equal (if np_greater (if np_isinf x then Num 500 else x) (Num 500) then Num 500
                      else if np_isinf x then Num 500 else x) (Num 0) then NaN
         else if np_greater (if np_isinf x then Num 500 else x) (Num 500) then Num 500
              else if np_isinf x then Num 500 else x)
        = (if x = PosInf \<or> x = NegInf then Num 500
           else if np_greater x (Num 500) then Num 500
           else if x = Num 0 then NaN
           else x)" for x
    by (cases x) auto
  then show ?thesis
    by (simp add: sanitize_blk_def mask_assign_def Let_def)
qed

lemma ReadAsArray_nth:
  assumes "ReadAsArray ds xoff yoff xsize ysize = Some blk"
    and "0 \<le> i" "i < ysize" "0 \<le> j" "j < xsize"
  shows "nat i < length blk \<and> nat j < length (blk ! nat i)
       \<and> blk ! nat i ! nat j = ds_cell ds (yoff + i) (xoff + j)"
proof -
  from assms(1) have blk: "blk = map (\<lambda>r. map (\<lambda>c. ds_cell ds r c) [xoff..xoff + xsize - 1])
                     [yoff..yoff + ysize - 1]"
    by (simp add: ReadAsArray_def split: if_splits)
  have li: "nat i < length [yoff..yoff + ysize - 1]" using assms(2,3) by simp
  have lj: "nat j < length [xoff..xoff + xsize - 1]" using assms(4,5) by simp
  have ni: "[yoff..yoff + ysize - 1] ! nat i = yoff + i" using assms(2,3) by (simp add: nth_upto)
  have nj: "[xoff..xoff + xsize - 1] ! nat j = xoff + j" using assms(4,5) by (simp add: nth_upto)
  show ?thesis using li lj ni nj unfolding blk by simp
qed

lemma write_window_ok:
  assumes "written_ok ds dst"
    and "ReadAsArray ds xoff yoff xsize ysize = Some blk"
    and "write_window dst (sanitize_blk (Num 500) blk) xoff yoff xsize ysize = Inr dst'"
  shows "written_ok ds dst'"
  unfolding written_ok_def
proof (intro allI impI)
  fix r c v
  assume v: "r_band dst' (r, c) = Some v"
  from assms(3) have dst': "dst' = dst\<lparr>r_band := (\<lambda>(r, c).
                  if yoff \<le> r \<and> r < yoff + ysize \<and> xoff \<le> c \<and> c < xoff + xsize
                  then Some (sanitize_blk (Num 500) blk ! nat (r - yoff) ! nat (c - xoff))
                  else r_band dst (r, c))\<rparr>"
    by (simp add: write_window_def split: if_splits)
  show "v = (let x = ds_cell ds r c in
             if x = PosInf \<or> x = NegInf then Num 500
             else if np_greater x (Num 500) then Num 500
             else if x = Num 0 then NaN
             else x)"
  proof (cases "yoff \<le> r \<and> r < yoff + ysize \<and> xoff \<le> c \<and> c < xoff + xsize")
    case True
    then have "0 \<le> r - yoff" "r - yoff < ysize" "0 \<le> c - xoff" "c - xoff < xsize" by simp_all
    from ReadAsArray_nth [OF assms(2) this]
    have n: "nat (r - yoff) < length blk" "nat (c - xoff) < length (blk ! nat (r - yoff))"
      "blk ! nat (r - yoff) ! nat (c - xoff) = ds_cell ds r c" by simp_all
    from v True have "v = sanitize_blk (Num 500) blk ! nat (r - yoff) ! nat (c - xoff)"
      by (simp add: dst')
    with n show ?thesis by (simp add: sanitize_blk_map Let_def)
  next
    case False
    with v have "r_band dst (r, c) = Some v" by (auto simp: dst')
    with assms(1) show ?thesis by (simp add: written_ok_def)
  qed
qed

lemma write_cols_ok:
  "written_ok ds dst \<Longrightarrow> written_ok ds (snd (write_cols ds (Num 500) slice_row cols dst))"
proof (induction cols arbitrary: dst)
  case Nil
  then show ?case by simp
next
  case (Cons slice_col rest)
  show ?case
  proof (cases "ReadAsArray ds (fst slice_col) (fst slice_row) (snd slice_col - fst slice_col)
                   (snd slice_row - fst slice_row)")
    case None
    with Cons.prems show ?thesis by simp
  next
    case (Some blk)
    show ?thesis
    proof (cases "write_window dst (sanitize_blk (Num 500) blk) (fst slice_col) (fst slice_row)
                    (snd slice_col - fst slice_col) (snd slice_row - fst slice_row)")
      case (Inl e)
      with Some Cons.prems show ?thesis by simp
    next
      case (Inr dst')
      from write_window_ok [OF Cons.prems Some Inr] have "written_ok ds dst'" .
      from Cons.IH [OF this] Some Inr show ?thesis by simp
    qed
  qed
qed

lemma write_rows_ok:
  "written_ok ds dst \<Longrightarrow> written_ok ds (snd (write_rows ds (Num 500) col_slices rows dst))"
proof (induction rows arbitrary: dst)
  case Nil
  then show ?case by simp
next
  case (Cons slice_row rest)
  show ?case
  proof (cases col_slices)
    case (Inl e)
    with Cons.prems show ?thesis by simp
  next
    case (Inr cols)
    obtain res dst' where w: "write_cols ds (Num 500) slice_row cols dst = (res, dst')"
      by (cases "write_cols ds (Num 500) slice_row cols dst")
    from write_cols_ok [OF Cons.prems, of slice_row cols] w have ok: "written_ok ds dst'" by simp
    show ?thesis
    proof (cases res)
      case (Inl e)
      with Inr w ok show ?thesis by simp
    next
      case (Inr u)
      with \<open>col_slices = Inr cols\<close> w Cons.IH [OF ok] show ?thesis by simp
    qed
  qed
qed

text \<open>
  C3, as the code has it. Every cell that \<open>read_write_rtc\<close> writes holds the source
  sample at the same row and column, with either infinity (positive or negative) and every
  value above 500 written as 500, zero written as not-a-number, and every other sample
  unchanged.
\<close>

theorem read_write_rtc_sanitizes:
  assumes "map_option (\<lambda>dst. r_band dst (r, c))
             (rasters (snd (read_write_rtc self h5_ds output_gtiff num_rows num_cols
                              row_blk_size col_blk_size (Num 500) geotransform crs
                              dswx_metadata_dict st)) output_gtiff) = Some (Some v)"
  shows "v = (let x = ds_cell h5_ds r c
              in if x = PosInf \<or> x = NegInf then Num 500
                 else if np_greater x (Num 500) then Num 500
                 else if x = Num 0 then NaN
                 else x)"
proof -
  define dst0 where "dst0 = \<lparr>r_height = num_rows, r_width = num_cols, r_crs = crs,
                 r_transform = geotransform, r_tags = [], r_band = (\<lambda>rc. None)\<rparr>"
  from assms obtain dst where dst: "rasters (snd (read_write_rtc self h5_ds output_gtiff
      num_rows num_cols row_blk_size col_blk_size (Num 500) geotransform crs
      dswx_metadata_dict st)) output_gtiff = Some dst" and v: "r_band dst (r, c) = Some v"
    by auto
  have ok0: "written_ok h5_ds dst0" by (simp add: written_ok_def dst0_def)
  have "written_ok h5_ds dst"
  proof (cases "slice_gen num_rows (self_row_blk_size self) True")
    case (Inl e)
    with dst have "dst = dst0"
      by (simp add: read_write_rtc_def put_raster_def dst0_def)
    with ok0 show ?thesis by simp
  next
    case (Inr row_slices)
    obtain res dst' where w: "write_rows h5_ds (Num 500)
        (slice_gen num_cols (self_col_blk_size self) True) row_slices dst0 = (res, dst')"
      by (cases "write_rows h5_ds (Num 500)
        (slice_gen num_cols (self_col_blk_size self) True) row_slices dst0")
    from write_rows_ok [OF ok0, of "slice_gen num_cols (self_col_blk_size self) True" row_slices] w
    have ok: "written_ok h5_ds dst'" by simp
    from dst Inr w have "dst = dst' \<or> dst = dst'\<lparr>r_tags := dswx_metadata_dict\<rparr>"
      by (cases res) (auto simp: read_write_rtc_def put_raster_def dst0_def)
    with ok show ?thesis by (auto simp: written_ok_def)
  qed
  with v show ?thesis by (simp add: written_ok_def)
qed

theorem read_write_rtc_sanitizes_witness:
  "map_option (\<lambda>dst. r_band dst (0, 0))
     (rasters (snd (read_write_rtc example_reader (example_dataset 1) ''out.tif'' 1 1 1 1
                      (Num 500) (Affine 1 0 0 0 1 0) (EPSG 32611) [] empty_state))
        ''out.tif'') = Some (Some (Num 1))
   \<and> Num 1 = (let x = ds_cell (example_dataset 1) 0 0
              in if x = PosInf \<or> x = NegInf then Num 500
                 else if np_greater x (Num 500) then Num 500
                 else if x = Num 0 then NaN
                 else x)"
proof -
  have h: "map_option (\<lambda>dst. r_band dst (0, 0))
     (rasters (snd (read_write_rtc example_reader (example_dataset 1) ''out.tif'' 1 1 1 1
                      (Num 500) (Affine 1 0 0 0 1 0) (EPSG 32611) [] empty_state))
        ''out.tif'') = Some (Some (Num 1))"
    by code_simp
  from read_write_rtc_sanitizes [OF h] h show ?thesis by simp
qed

text \<open>
  C3, as claimed, fails: negative infinity is not positive infinity, is not above 500 and
  is not zero, so the claim has it written unchanged; the code writes 500.
\<close>

theorem read_write_rtc_neginf_counterexample:
  "ds_cell example_neginf_dataset 0 0 = NegInf
   \<and> NegInf \<noteq> PosInf \<and> \<not> np_greater NegInf (Num 500) \<and> \<not> np_equal NegInf (Num 0)
   \<and> map_option (\<lambda>dst. r_band dst (0, 0))
        (rasters (snd (read_write_rtc example_reader example_neginf_dataset ''out.tif'' 1 1 1 1
                         (Num 500) (Affine 1 0 0 0 1 0) (EPSG 32611) [] empty_state))
           ''out.tif'') = Some (Some (Num 500))
   \<and> Num 500 \<noteq> NegInf"
proof -
  have "map_option (\<lambda>dst. r_band dst (0, 0))
        (rasters (snd (read_write_rtc example_reader example_neginf_dataset ''out.tif'' 1 1 1 1
                         (Num 500) (Affine 1 0 0 0 1 0) (EPSG 32611) [] empty_state))
           ''out.tif'') = Some (Some (Num 500))"
    by code_simp
  then show ?thesis by (simp add: example_neginf_dataset_def)
qed

text \<open>
  C10. Two calls of \<open>read_write_rtc\<close> that differ only in the arguments
  \<open>row_blk_size\<close> and \<open>col_blk_size\<close> write the same raster and end alike: the body
  replaces both by the attributes of the reader before it uses them.
\<close>

theorem read_write_rtc_ignores_block_args:
  "read_write_rtc self h5_ds output_gtiff num_rows num_cols row_blk_size col_blk_size
       designated_value geotransform crs dswx_metadata_dict st
   = read_write_rtc self h5_ds output_gtiff num_rows num_cols row_blk_size' col_blk_size'
       designated_value geotransform crs dswx_metadata_dict st"
  by (simp add: read_write_rtc_def)

section \<open>Faults of the product reader\<close>

lemma np_all_equal_refl: "np_all_equal a a = Inr True"
  by (simp add: np_all_equal_def list_all2_same)






lemma polarization_loop_missing:
  assumes "p \<in> set xs" "fs p = None"
  shows "polarization_loop fs acc xs = Inl FileNotFoundError
       \<or> polarization_loop fs acc xs = Inl ValueError"
  using assms
proof (induction xs arbitrary: acc)
  case Nil
  then show ?case by simp
next
  case (Cons x xs)
  show ?case
  proof (cases "fs x")
    case None
    then show ?thesis by simp
  next
    case (Some h)
    with Cons.prems have px: "p \<in> set xs" by auto
    have ih: "\<And>acc. polarization_loop fs acc xs = Inl FileNotFoundError
       \<or> polarization_loop fs acc xs = Inl ValueError"
      using Cons.IH [OF px Cons.prems(2)] .
    show ?thesis
    proof (cases "acc = []")
      case True
      with Some ih show ?thesis by simp
    next
      case False
      show ?thesis
      proof (cases "np_all_equal acc (sort (listOfPolarizations h))")
        case (Inl e)
        then have "e = ValueError" by (auto simp: np_all_equal_def split: if_splits)
        with Inl Some False show ?thesis by simp
      next
        case (Inr same)
        with Some False ih show ?thesis by (cases same) simp_all
      qed
    qed
  qed
qed

lemma polarization_loop_missing_consistent:
  assumes "p \<in> set xs" "fs p = None"
    and "\<forall>q \<in> set (takeWhile (\<lambda>q. fs q \<noteq> None) xs). sort (listOfPolarizations (the (fs q))) = c"
    and "acc = [] \<or> acc = c"
  shows "polarization_loop fs acc xs = Inl FileNotFoundError"
  using assms
proof (induction xs arbitrary: acc)
  case Nil
  then show ?case by simp
next
  case (Cons x xs)
  show ?case
  proof (cases "fs x")
    case None
    then show ?thesis by simp
  next
    case (Some h)
    with Cons.prems have px: "p \<in> set xs" by auto
    from Some Cons.prems(3) have c: "sort (listOfPolarizations h) = c"
      and rest: "\<forall>q \<in> set (takeWhile (\<lambda>q. fs q \<noteq> None) xs). sort (listOfPolarizations (the (fs q))) = c"
      by auto
    have ih: "polarization_loop fs c xs = Inl FileNotFoundError"
      by (rule Cons.IH [OF px Cons.prems(2) rest]) simp
    show ?thesis
    proof (cases "acc = []")
      case True
      with Some c ih show ?thesis by simp
    next
      case False
      with Cons.prems(4) have "acc = c" by simp
      with Some c ih False show ?thesis by (simp add: np_all_equal_refl)
    qed
  qed
qed

text \<open>
  C8, as the code has it. If a path of the input list does not exist, the run fails with
  \<open>FileNotFoundError\<close> or with \<open>ValueError\<close> and the state is as before the run. It
  fails with \<open>FileNotFoundError\<close> when the products listed before the first missing
  path all have the polarization list of the first product, up to order.
\<close>

theorem missing_input_fails_before_output:
  assumes "p \<in> set input_list" "fs p = None"
  shows "(process_rtc_hdf5 env self fs input_list output_dir scratch_dir mosaic_mode
            mosaic_prefix st = (Inl FileNotFoundError, st)
          \<or> process_rtc_hdf5 env self fs input_list output_dir scratch_dir mosaic_mode
            mosaic_prefix st = (Inl ValueError, st))
       \<and> ((\<forall>q \<in> set (takeWhile (\<lambda>q. fs q \<noteq> None) input_list).
              sort (listOfPolarizations (the (fs q)))
                = sort (listOfPolarizations (the (fs (hd input_list)))))
            \<longrightarrow> process_rtc_hdf5 env self fs input_list output_dir scratch_dir mosaic_mode
                  mosaic_prefix st = (Inl FileNotFoundError, st))"
proof -
  have a: "extract_nisar_polarization fs input_list = Inl FileNotFoundError
        \<or> extract_nisar_polarization fs input_list = Inl ValueError"
    unfolding extract_nisar_polarization_def using assms by (rule polarization_loop_missing)
  have b: "extract_nisar_polarization fs input_list = Inl FileNotFoundError"
    if "\<forall>q \<in> set (takeWhile (\<lambda>q. fs q \<noteq> None) input_list).
              sort (listOfPolarizations (the (fs q)))
                = sort (listOfPolarizations (the (fs (hd input_list))))"
    unfolding extract_nisar_polarization_def
    using assms that by (rule polarization_loop_missing_consistent) simp
  from a b show ?thesis by (auto simp: process_rtc_hdf5_def)
qed

theorem missing_input_fails_before_output_witness:
  "''in/C.h5'' \<in> set [''in/A.h5'', ''in/C.h5'', ''in/B.h5''] \<and> fs_two_pols ''in/C.h5'' = None
   \<and> process_rtc_hdf5 example_env example_reader fs_two_pols
        [''in/A.h5'', ''in/C.h5'', ''in/B.h5''] ''out'' ''tmp'' ''first'' ''m'' empty_state
      = (Inl FileNotFoundError, empty_state)"
proof -
  have a: "''in/C.h5'' \<in> set [''in/A.h5'', ''in/C.h5'', ''in/B.h5'']" by simp
  have b: "fs_two_pols ''in/C.h5'' = None" by (simp add: fs_two_pols_def)
  have c: "\<forall>q \<in> set (takeWhile (\<lambda>q. fs_two_pols q \<noteq> None) [''in/A.h5'', ''in/C.h5'', ''in/B.h5'']).
              sort (listOfPolarizations (the (fs_two_pols q)))
                = sort (listOfPolarizations (the (fs_two_pols (hd [''in/A.h5'', ''in/C.h5'', ''in/B.h5'']))))"
    by (simp add: fs_two_pols_def)
  from missing_input_fails_before_output
         [of "''in/C.h5''" "[''in/A.h5'', ''in/C.h5'', ''in/B.h5'']" fs_two_pols example_env
             example_reader "''out''" "''tmp''" "''first''" "''m''" empty_state, OF a b] a b c
  show ?thesis by blast
qed

text \<open>
  C8, as claimed, fails: the path \<open>in/C.h5\<close> does not exist, but the two products listed
  before it differ in polarization, and the run fails with \<open>ValueError\<close>.
\<close>

theorem missing_input_counterexample:
  "''in/C.h5'' \<in> set [''in/A.h5'', ''in/B.h5'', ''in/C.h5''] \<and> fs_two_pols ''in/C.h5'' = None
   \<and> process_rtc_hdf5 example_env example_reader fs_two_pols
        [''in/A.h5'', ''in/B.h5'', ''in/C.h5''] ''out'' ''tmp'' ''first'' ''m'' empty_state
      = (Inl ValueError, empty_state)"
  by (simp add: process_rtc_hdf5_def extract_nisar_polarization_def fs_two_pols_def
      example_product_def np_all_equal_def)

section \<open>Properties of the orchestrator\<close>

subsection \<open>Mosaic requests and the layover flag\<close>





subsection \<open>The second loop: what it changes\<close>














subsection \<open>The mosaics asked for\<close>














text \<open>
  C5. The claim: for a raster whose coordinate system differs from the majority, the
  geogrid is updated after the reprojection with that same raster. In the branch of such an
  input the code passes the variable \<open>output_gtiff\<close> to \<open>update_geogrid\<close>, which that
  branch never assigns. With five inputs, the first and the last in EPSG 32610 and the
  majority in 32611: while the first is harmonized the geogrid registers the raster of the
  last input, not yet reprojected (EPSG 32610); while the last is harmonized it registers
  the raster of the fourth input again. The rasters of the first and of the last input are
  never registered after their reprojection.
\<close>

theorem geogrid_registers_stale_raster:
  "majority_element example_env [32610, 32611, 32611, 32611, 32610] = 32611
   \<and> map (\<lambda>m. map (\<lambda>(p, r). (p, r_crs r)) (mc_geogrid m))
       (mosaics (snd (process_rtc_hdf5 example_env example_reader fs_five
          [''in/X.h5'', ''in/A.h5'', ''in/B.h5'', ''in/C.h5'', ''in/Y.h5'']
          ''out'' ''tmp'' ''first'' ''m'' empty_state)))
     = [[(''tmp/Y_HH.tif'', EPSG 32610), (''tmp/A_HH.tif'', EPSG 32611),
         (''tmp/B_HH.tif'', EPSG 32611), (''tmp/C_HH.tif'', EPSG 32611),
         (''tmp/C_HH.tif'', EPSG 32611)]]"
  by code_simp

text \<open>
  C6. The claim: every intermediate raster, the layover raster of each input included, is
  created with the geotransform, coordinate system, metadata and dimensions of its own
  product. The third loop reuses \<open>num_rows\<close>, \<open>geotransform\<close>, \<open>crs\<close> and
  \<open>dswx_metadata_dict\<close> as the first loop left them, that is, of the last input. With
  two inputs, the layover raster of the first (whose mask has 2 rows, origin -1, frame
  number 2) is created with 1 row, origin 9 and frame number 1, the values of the second.
\<close>

theorem layover_raster_created_from_last_input:
  "read_geodata_hdf5 fs_two_masks ''in/A.h5'' = Inr (Affine 2 0 (- 1) 0 2 (- 1), EPSG 32611)
   \<and> read_geodata_hdf5 fs_two_masks ''in/B.h5'' = Inr (Affine 2 0 9 0 2 (- 1), EPSG 32611)
   \<and> map_option RasterYSize
        (gdal_Open fs_two_masks ''in/A.h5'' (generate_nisar_layover_name ''layoverShadowMask''))
      = Some 2
   \<and> map_option (\<lambda>r. (r_height r, r_transform r, map_of (r_tags r) ''FRAME_NUMBER''))
        (rasters (snd (process_rtc_hdf5 example_env example_reader fs_two_masks
           [''in/A.h5'', ''in/B.h5''] ''out'' ''tmp'' ''first'' ''m'' empty_state))
           ''tmp/A_layover.tif'')
      = Some (1, Affine 2 0 9 0 2 (- 1), Some (TInt 1))
   \<and> map_option (\<lambda>t. map_of t ''FRAME_NUMBER'') (case read_metadata_hdf5 fs_two_masks ''in/A.h5'' of Inl e \<Rightarrow> None | Inr t \<Rightarrow> Some t)
      = Some (Some (TInt 2))"
  by code_simp

subsection \<open>The second loop: registrations\<close>








end
